theory Spec2Isabelle
  imports Main
begin

section \<open>JavaScript values as the question service reads them\<close>

text \<open>
  The bus message handed to \<open>handleMatchingRequest\<close>, the query object of the HTTP
  route, the value returned by the store query and the question documents are JavaScript
  values. They are modelled as JSON-like trees together with \<open>undefined\<close>, the value of
  a property that is not there. Numbers are represented by integers (only the test against
  zero and the decimal rendering are ever used); an object is the list of its own
  properties, the first binding of a name being its value.
\<close>

datatype jsval =
    JUndefined
  | JNull
  | JBool bool
  | JNum int
  | JStr string
  | JArr "jsval list"
  | JObj "(string \<times> jsval) list"

text \<open>A thrown value: the engine's \<open>TypeError\<close>, or an \<open>Error\<close> raised by a collaborator
  (the store driver, the bus client) with its message.\<close>

datatype js_error = TypeError | Error string

text \<open>Truthiness as tested by \<open>!v\<close>, \<open>v && ...\<close> and \<open>v || ...\<close>.\<close>

fun truthy :: "jsval \<Rightarrow> bool" where
  "truthy JUndefined = False"
| "truthy JNull = False"
| "truthy (JBool b) = b"
| "truthy (JNum n) = (n \<noteq> 0)"
| "truthy (JStr s) = (s \<noteq> [])"
| "truthy (JArr xs) = True"
| "truthy (JObj ps) = True"

fun nullish :: "jsval \<Rightarrow> bool" where
  "nullish JUndefined = True"
| "nullish JNull = True"
| "nullish v = False"

text \<open>
  \<open>js_member v k\<close> is the member access \<open>v.k\<close> (or \<open>v[0]\<close> for \<open>k = ''0''\<close>) on a value that is
  neither \<open>undefined\<close> nor \<open>null\<close>. The names read by the code below are
  \<open>correlationId\<close>, \<open>meta\<close>, \<open>difficulty\<close>, \<open>topics\<close>, \<open>length\<close>, \<open>0\<close> and the twelve
  question fields; none of them is inherited from a prototype except \<open>length\<close> and the
  index \<open>0\<close> of arrays and strings, which are written out.
\<close>

fun js_member :: "jsval \<Rightarrow> string \<Rightarrow> jsval" where
  "js_member (JObj ps) k = (case map_of ps k of Some v \<Rightarrow> v | None \<Rightarrow> JUndefined)"
| "js_member (JArr xs) k =
     (if k = ''length'' then JNum (int (length xs))
      else if k = ''0'' then (case xs of [] \<Rightarrow> JUndefined | x # _ \<Rightarrow> x)
      else JUndefined)"
| "js_member (JStr s) k =
     (if k = ''length'' then JNum (int (length s))
      else if k = ''0'' then (case s of [] \<Rightarrow> JUndefined | c # _ \<Rightarrow> JStr [c])
      else JUndefined)"
| "js_member v k = JUndefined"

text \<open>Member access on any value: reading a property of \<open>undefined\<close> or \<open>null\<close> throws.\<close>

definition get_prop :: "jsval \<Rightarrow> string \<Rightarrow> js_error + jsval" where
  "get_prop v k = (if nullish v then Inl TypeError else Inr (js_member v k))"

text \<open>Decimal rendering of a number.\<close>

function dec :: "nat \<Rightarrow> string" where
  "dec n = (if n < 10 then [char_of (48 + n)] else dec (n div 10) @ [char_of (48 + n mod 10)])"
  by pat_completeness auto
termination
  by (relation "measure (\<lambda>n. n)") auto

declare dec.simps [simp del]

definition num_to_string :: "int \<Rightarrow> string" where
  "num_to_string n = (if n < 0 then CHR ''-'' # dec (nat (- n)) else dec (nat n))"

text \<open>
  \<open>ToString v\<close> is the conversion applied by a template literal \<open>`${v}`\<close>. An array is
  joined with commas, \<open>undefined\<close> and \<open>null\<close> elements giving the empty string. A plain
  object renders as \<open>[object Object]\<close> through the inherited \<open>toString\<close>; when it has an
  own property named \<open>toString\<close> (which, in a decoded message, is never a function) no
  method yields a primitive and the conversion throws a \<open>TypeError\<close>.
\<close>

fun ToString :: "jsval \<Rightarrow> js_error + string"
  and join_elements :: "jsval list \<Rightarrow> js_error + string" where
  "ToString JUndefined = Inr ''undefined''"
| "ToString JNull = Inr ''null''"
| "ToString (JBool b) = Inr (if b then ''true'' else ''false'')"
| "ToString (JNum n) = Inr (num_to_string n)"
| "ToString (JStr s) = Inr s"
| "ToString (JArr xs) = join_elements xs"
| "ToString (JObj ps) =
     (if map_of ps ''toString'' = None then Inr ''[object Object]'' else Inl TypeError)"
| "join_elements [] = Inr []"
| "join_elements (x # xs) =
     (case (if nullish x then Inr [] else ToString x) of
        Inl e \<Rightarrow> Inl e
      | Inr s \<Rightarrow>
          (if xs = [] then Inr s
           else (case join_elements xs of Inl e \<Rightarrow> Inl e | Inr t \<Rightarrow> Inr (s @ '','' @ t))))"

section \<open>The collaborators: question store and bus producer\<close>

text \<open>
  \<open>producer.send\<close> takes a record \<open>{topic, messages: [{value: JSON.stringify(payload)}]}\<close>.
  The record is kept with the payload object that is serialised, one per message.
\<close>

record producer_record =
  topic :: string
  messages :: "jsval list"

text \<open>
  The environment of one call. \<open>findRandomQuestion d t\<close> is what the awaited store query
  \<open>_findRandomQuestion(d, t)\<close> (module \<open>repository.js\<close>) gives: a thrown error or the
  returned value. \<open>producer_send n r\<close> is the outcome of the awaited \<open>producer.send(r)\<close>
  when \<open>n\<close> sends were made before it during this call: \<open>None\<close> when the bus acknowledges,
  \<open>Some e\<close> when the send fails with \<open>e\<close>.
\<close>

record env =
  findRandomQuestion :: "jsval \<Rightarrow> jsval \<Rightarrow> js_error + jsval"
  producer_send :: "nat \<Rightarrow> producer_record \<Rightarrow> js_error option"

datatype console_method = console_log | console_warn | console_error

datatype console_arg = Text string | Val jsval | Err js_error

text \<open>What a call does to the outside, in order.\<close>

datatype event =
    Console console_method "console_arg list"
  | Store_query jsval jsval
  | Producer_send producer_record "js_error option"

text \<open>How the promise of the \<open>async\<close> handler settles.\<close>

datatype completion = Resolved | Rejected js_error

fun attempts :: "event list \<Rightarrow> producer_record list" where
  "attempts [] = []"
| "attempts (Producer_send r ack # es) = r # attempts es"
| "attempts (e # es) = attempts es"

fun published :: "event list \<Rightarrow> producer_record list" where
  "published [] = []"
| "published (Producer_send r None # es) = r # published es"
| "published (e # es) = published es"

fun queries :: "event list \<Rightarrow> (jsval \<times> jsval) list" where
  "queries [] = []"
| "queries (Store_query d t # es) = (d, t) # queries es"
| "queries (e # es) = queries es"

section \<open>The controller\<close>

definition DIFFICULTIES :: "string list" where
  "DIFFICULTIES = [''Easy'', ''Medium'', ''Hard'']"

definition TOPICS :: "string list" where
  "TOPICS = [''Strings'', ''Arrays'', ''Linked List'', ''Heaps'', ''Hashmap'', ''Greedy'',
     ''Graphs'', ''Dynamic Programming'']"

text \<open>\<open>xs.includes(v)\<close> on an array of strings.\<close>

definition array_includes :: "string list \<Rightarrow> jsval \<Rightarrow> bool" where
  "array_includes xs v = (v \<in> set (map JStr xs))"

definition question_fields :: "string list" where
  "question_fields = [''id'', ''title'', ''difficulty'', ''topics'', ''problemStatement'',
     ''constraints'', ''examples'', ''codeSnippets'', ''entryPoint'', ''timeout'',
     ''signature'', ''testCases'']"

text \<open>\<open>formatQuestionResponse(question)\<close>: a fresh object of twelve properties read from the
  question; the first read throws when the question is \<open>undefined\<close> or \<open>null\<close>. A stored
  question is an object with its storage identifier under \<open>_id\<close>; what \<open>question.id\<close>
  gives (the accessor of a document) is its property \<open>id\<close>.\<close>

definition formatQuestionResponse :: "jsval \<Rightarrow> js_error + jsval" where
  "formatQuestionResponse question =
     (if nullish question then Inl TypeError
      else Inr (JObj (map (\<lambda>k. (k, js_member question k)) question_fields)))"

definition reply :: "jsval \<Rightarrow> string \<Rightarrow> jsval \<Rightarrow> string \<Rightarrow> producer_record" where
  "reply correlationId status data message =
     \<lparr> topic = ''question-replies'',
       messages = [JObj [(''correlationId'', correlationId), (''status'', JStr status),
                         (''data'', data), (''message'', JStr message)]] \<rparr>"

definition no_question_reply :: "jsval \<Rightarrow> producer_record" where
  "no_question_reply correlationId =
     reply correlationId ''error'' JNull ''No questions found matching the criteria.''"

definition success_reply :: "jsval \<Rightarrow> jsval \<Rightarrow> producer_record" where
  "success_reply correlationId data =
     reply correlationId ''success'' data ''Question found successfully.''"

definition internal_error_reply :: "jsval \<Rightarrow> producer_record" where
  "internal_error_reply correlationId =
     reply correlationId ''error'' JNull ''An internal error occurred in the Question Service.''"

text \<open>The condition \<open>!randomQuestion || randomQuestion.length === 0\<close>.\<close>

definition no_question :: "jsval \<Rightarrow> bool" where
  "no_question randomQuestion =
     (\<not> truthy randomQuestion \<or> js_member randomQuestion ''length'' = JNum 0)"

text \<open>
  The body of the \<open>try\<close> of \<open>handleMatchingRequest\<close>: its events, and the value thrown
  inside it if any. \<open>cid\<close> is the rendering of the correlation id used in the log lines.
\<close>

definition try_block :: "env \<Rightarrow> jsval \<Rightarrow> string \<Rightarrow> jsval \<Rightarrow> jsval \<Rightarrow> event list \<times> js_error option" where
  "try_block env correlationId cid difficulty topic0 =
     (case findRandomQuestion env difficulty topic0 of
        Inl err \<Rightarrow> ([Store_query difficulty topic0], Some err)
      | Inr randomQuestion \<Rightarrow>
          if no_question randomQuestion then
            (let r = no_question_reply correlationId; ack = producer_send env 0 r
             in ([Store_query difficulty topic0,
                  Console console_warn [Text (''[Question] Kafka: No question found for '' @ cid)],
                  Producer_send r ack], ack))
          else
            (case formatQuestionResponse (js_member randomQuestion ''0'') of
               Inl err \<Rightarrow> ([Store_query difficulty topic0], Some err)
             | Inr data \<Rightarrow>
                 (let r = success_reply correlationId data; ack = producer_send env 0 r
                  in ([Store_query difficulty topic0, Producer_send r ack]
                      @ (case ack of
                           None \<Rightarrow> [Console console_log [Text (''[Question] Kafka: Sent reply for '' @ cid)]]
                         | Some err \<Rightarrow> []), ack))))"

text \<open>The \<open>catch (err)\<close> block, entered after \<open>n\<close> sends.\<close>

definition catch_block :: "env \<Rightarrow> nat \<Rightarrow> jsval \<Rightarrow> string \<Rightarrow> js_error \<Rightarrow> event list" where
  "catch_block env n correlationId cid err =
     (let r = internal_error_reply correlationId; ack = producer_send env n r
      in [Console console_error
            [Text (''[Question] Kafka: Error processing request '' @ cid @ '':''), Err err],
          Producer_send r ack]
         @ (case ack of
              None \<Rightarrow> []
            | Some sendErr \<Rightarrow>
                [Console console_error
                   [Text ''[Question] Kafka: CRITICAL! Failed to send error reply:'', Err sendErr]]))"

text \<open>The three conversions of the log line before the \<open>try\<close>, left to right.\<close>

definition handling_line :: "jsval \<Rightarrow> jsval \<Rightarrow> jsval \<Rightarrow> js_error + string \<times> string" where
  "handling_line correlationId difficulty topic0 =
     (case ToString correlationId of
        Inl e \<Rightarrow> Inl e
      | Inr cid \<Rightarrow>
          (case ToString difficulty of
             Inl e \<Rightarrow> Inl e
           | Inr d \<Rightarrow>
               (case ToString topic0 of
                  Inl e \<Rightarrow> Inl e
                | Inr t \<Rightarrow>
                    Inr (cid, ''[Question] Kafka: Handling request '' @ cid @ '' for '' @ d
                              @ '' and topic '' @ t))))"

definition handleMatchingRequest :: "env \<Rightarrow> jsval \<Rightarrow> event list \<times> completion" where
  "handleMatchingRequest env message =
     (if nullish message then ([], Rejected TypeError)
      else
        (let correlationId = js_member message ''correlationId''; meta = js_member message ''meta''
         in case get_prop meta ''difficulty'' of
              Inl e \<Rightarrow> ([], Rejected e)
            | Inr difficulty \<Rightarrow>
                if \<not> truthy difficulty \<or> \<not> truthy (js_member meta ''topics'') then
                  ([Console console_warn
                      [Text ''Received invalid matching request (missing fields):'', Val message]],
                   Resolved)
                else
                  (let topic0 = js_member (js_member meta ''topics'') ''0''
                   in case handling_line correlationId difficulty topic0 of
                        Inl e \<Rightarrow> ([], Rejected e)
                      | Inr (cid, line) \<Rightarrow>
                          (case try_block env correlationId cid difficulty topic0 of
                             (evs, None) \<Rightarrow> (Console console_log [Text line] # evs, Resolved)
                           | (evs, Some err) \<Rightarrow>
                               (Console console_log [Text line] # evs
                                  @ catch_block env (length (attempts evs)) correlationId cid err,
                                Resolved)))))"

subsection \<open>The HTTP route for a random question\<close>

text \<open>An HTTP answer \<open>res.status(c).json(b)\<close>.\<close>

record http_response =
  http_status :: nat
  http_body :: jsval

definition json_message :: "nat \<Rightarrow> string \<Rightarrow> http_response" where
  "json_message c m = \<lparr> http_status = c, http_body = JObj [(''message'', JStr m)] \<rparr>"

text \<open>
  The body of the \<open>try\<close> of \<open>getRandomQuestion(req, res)\<close>, on \<open>query = req.query\<close>: its
  events, and either the value thrown inside it or the answer returned.
\<close>

definition getRandomQuestion_try :: "env \<Rightarrow> jsval \<Rightarrow> event list \<times> (js_error + http_response)" where
  "getRandomQuestion_try env query =
     (if nullish query then ([], Inl TypeError)
      else
        (let difficulty = js_member query ''difficulty''; topics = js_member query ''topics''
         in if \<not> truthy difficulty then
              ([], Inr (json_message 404 ''Difficulty must be specified''))
            else if \<not> truthy topics then
              ([], Inr (json_message 404 ''Topics must be specified''))
            else if \<not> array_includes DIFFICULTIES difficulty then
              (case ToString difficulty of
                 Inl e \<Rightarrow> ([], Inl e)
               | Inr d \<Rightarrow> ([], Inr (json_message 404 (''Invalid difficulty level: '' @ d))))
            else if \<not> array_includes TOPICS topics then
              (case ToString topics of
                 Inl e \<Rightarrow> ([], Inl e)
               | Inr t \<Rightarrow> ([], Inr (json_message 404 (''Invalid topic: '' @ t))))
            else
              (case findRandomQuestion env difficulty topics of
                 Inl err \<Rightarrow> ([Store_query difficulty topics], Inl err)
               | Inr randomQuestion \<Rightarrow>
                   if no_question randomQuestion then
                     ([Store_query difficulty topics],
                      Inr (json_message 404 ''No questions found matching the criteria.''))
                   else
                     (case ToString difficulty of
                        Inl e \<Rightarrow> ([Store_query difficulty topics], Inl e)
                      | Inr d \<Rightarrow>
                          (case ToString topics of
                             Inl e \<Rightarrow> ([Store_query difficulty topics], Inl e)
                           | Inr t \<Rightarrow>
                               (case formatQuestionResponse (js_member randomQuestion ''0'') of
                                  Inl e \<Rightarrow> ([Store_query difficulty topics], Inl e)
                                | Inr data \<Rightarrow>
                                    ([Store_query difficulty topics],
                                     Inr \<lparr> http_status = 200,
                                           http_body = JObj
                                             [(''message'', JStr (''Found a random question for the difficulty: ''
                                                 @ d @ '' and topic: '' @ t)),
                                              (''data'', data)] \<rparr>)))))))"

definition getRandomQuestion :: "env \<Rightarrow> jsval \<Rightarrow> event list \<times> http_response" where
  "getRandomQuestion env query =
     (case getRandomQuestion_try env query of
        (evs, Inr res) \<Rightarrow> (evs, res)
      | (evs, Inl err) \<Rightarrow>
          (evs @ [Console console_error [Err err]],
           json_message 500 ''Unknown error when getting a random question!''))"

section \<open>Vocabulary of the properties\<close>

text \<open>The parts of a bus message that the handler reads.\<close>

definition request_correlationId :: "jsval \<Rightarrow> jsval" where
  "request_correlationId message = js_member message ''correlationId''"

definition request_difficulty :: "jsval \<Rightarrow> jsval" where
  "request_difficulty message = js_member (js_member message ''meta'') ''difficulty''"

definition request_topics :: "jsval \<Rightarrow> jsval" where
  "request_topics message = js_member (js_member message ''meta'') ''topics''"

definition request_topic0 :: "jsval \<Rightarrow> jsval" where
  "request_topic0 message = js_member (request_topics message) ''0''"

text \<open>\<open>meta\<close> can be read: the message and its \<open>meta\<close> are neither \<open>undefined\<close> nor \<open>null\<close>.\<close>

definition meta_readable :: "jsval \<Rightarrow> bool" where
  "meta_readable message = (\<not> nullish message \<and> \<not> nullish (js_member message ''meta''))"

text \<open>Both criteria fields are present, by the handler's own test
  \<open>!meta.difficulty || !meta.topics\<close>.\<close>

definition fields_present :: "jsval \<Rightarrow> bool" where
  "fields_present message =
     (meta_readable message \<and> truthy (request_difficulty message)
      \<and> truthy (request_topics message))"

text \<open>A value that a template literal can render: every string, number, boolean,
  \<open>undefined\<close> and \<open>null\<close>, and the arrays and objects that \<open>ToString\<close> accepts.\<close>

definition renders :: "jsval \<Rightarrow> bool" where
  "renders v = (case ToString v of Inl e \<Rightarrow> False | Inr s \<Rightarrow> True)"

definition loggable :: "jsval \<Rightarrow> bool" where
  "loggable message =
     (renders (request_correlationId message) \<and> renders (request_difficulty message)
      \<and> renders (request_topic0 message))"

text \<open>The values of one property over the payloads of a record sent to the bus.\<close>

definition payload_field :: "producer_record \<Rightarrow> string \<Rightarrow> jsval list" where
  "payload_field r k = map (\<lambda>v. js_member v k) (messages r)"

text \<open>A message of the declared payload shape
  \<open>{ correlationId: string, meta: { difficulty: string, topics: string[] } }\<close>.\<close>

definition typed_request :: "string \<Rightarrow> string \<Rightarrow> string list \<Rightarrow> jsval" where
  "typed_request cid d ts =
     JObj [(''correlationId'', JStr cid),
           (''meta'', JObj [(''difficulty'', JStr d), (''topics'', JArr (map JStr ts))])]"

section \<open>Concrete inputs\<close>

definition sample_question :: jsval where
  "sample_question = JObj [(''_id'', JStr ''65f0a1''), (''id'', JStr ''65f0a1''),
     (''title'', JStr ''Shortest Path''), (''difficulty'', JStr ''Medium''),
     (''topics'', JArr [JStr ''Graphs''])]"

definition sample_request :: jsval where
  "sample_request = JObj [(''correlationId'', JStr ''abc-1''),
     (''meta'', JObj [(''difficulty'', JStr ''Medium''), (''topics'', JArr [JStr ''Graphs''])])]"

definition sample_query :: jsval where
  "sample_query = JObj [(''difficulty'', JStr ''Medium''), (''topics'', JStr ''Graphs'')]"

text \<open>A store holding one Medium/Graphs question and nothing else.\<close>

definition sample_store :: "jsval \<Rightarrow> jsval \<Rightarrow> js_error + jsval" where
  "sample_store d t =
     (if d = JStr ''Medium'' \<and> t = JStr ''Graphs'' then Inr (JArr [sample_question])
      else Inr (JArr []))"

definition sample_env :: env where
  "sample_env = \<lparr> findRandomQuestion = sample_store, producer_send = (\<lambda>n r. None) \<rparr>"

text \<open>The same store behind a producer whose first send fails.\<close>

definition flaky_env :: env where
  "flaky_env = \<lparr> findRandomQuestion = sample_store,
     producer_send = (\<lambda>n r. if n = 0 then Some (Error ''broker unavailable'') else None) \<rparr>"

definition faulty_store_env :: env where
  "faulty_store_env = \<lparr> findRandomQuestion = (\<lambda>d t. Inl (Error ''store unreachable'')),
     producer_send = (\<lambda>n r. None) \<rparr>"

definition empty_store_env :: env where
  "empty_store_env = \<lparr> findRandomQuestion = (\<lambda>d t. Inr (JArr [])),
     producer_send = (\<lambda>n r. None) \<rparr>"

definition no_meta_message :: jsval where
  "no_meta_message = JObj [(''correlationId'', JStr ''abc-1'')]"

definition no_topics_message :: jsval where
  "no_topics_message = JObj [(''correlationId'', JStr ''abc-1''),
     (''meta'', JObj [(''difficulty'', JStr ''Medium'')])]"

definition extreme_request :: jsval where
  "extreme_request = JObj [(''correlationId'', JStr ''abc-1''),
     (''meta'', JObj [(''difficulty'', JStr ''Extreme''), (''topics'', JArr [JStr ''Graphs''])])]"

definition extreme_query :: jsval where
  "extreme_query = JObj [(''difficulty'', JStr ''Extreme''), (''topics'', JStr ''Graphs'')]"

definition empty_topics_request :: jsval where
  "empty_topics_request = JObj [(''correlationId'', JStr ''abc-1''),
     (''meta'', JObj [(''difficulty'', JStr ''Medium''), (''topics'', JArr [])])]"

section \<open>Structure of a call\<close>

lemmas request_defs = fields_present_def loggable_def meta_readable_def renders_def
  request_correlationId_def request_difficulty_def request_topics_def request_topic0_def

lemmas handler_defs = handleMatchingRequest_def get_prop_def handling_line_def try_block_def
  catch_block_def no_question_def formatQuestionResponse_def question_fields_def
  success_reply_def no_question_reply_def internal_error_reply_def reply_def payload_field_def
  Let_def

lemma attempts_append: "attempts (xs @ ys) = attempts xs @ attempts ys"
  by (induction xs rule: attempts.induct) simp_all

lemma published_append: "published (xs @ ys) = published xs @ published ys"
  by (induction xs rule: published.induct) simp_all

lemma queries_append: "queries (xs @ ys) = queries xs @ queries ys"
  by (induction xs rule: queries.induct) simp_all

lemma attempts_catch_block:
  "attempts (catch_block env n c cid err) = [internal_error_reply c]"
  by (simp add: catch_block_def Let_def split: option.splits)

lemma published_catch_block:
  "published (catch_block env n c cid err) =
     (if producer_send env n (internal_error_reply c) = None then [internal_error_reply c] else [])"
  by (auto simp add: catch_block_def Let_def split: option.splits)

lemma queries_catch_block: "queries (catch_block env n c cid err) = []"
  by (simp add: catch_block_def Let_def split: option.splits)

lemma queries_try_block: "queries (fst (try_block env c cid d t)) = [(d, t)]"
  by (simp add: try_block_def Let_def split: sum.splits option.splits)

lemma internal_error_reply_facts:
  "topic (internal_error_reply c) = ''question-replies''"
  "payload_field (internal_error_reply c) ''correlationId'' = [c]"
  "payload_field (internal_error_reply c) ''status'' = [JStr ''error'']"
  "payload_field (internal_error_reply c) ''data'' = [JNull]"
  by (simp_all add: internal_error_reply_def reply_def payload_field_def)

text \<open>The only fault a rendering can raise is the engine's \<open>TypeError\<close>.\<close>

lemma ToString_throws_TypeError:
  "ToString v = Inl e \<Longrightarrow> e = TypeError"
  "join_elements xs = Inl e \<Longrightarrow> e = TypeError"
  by (induction v and xs rule: ToString_join_elements.induct)
     (auto split: if_splits sum.splits)

text \<open>Every message of the declared payload shape with a non-empty difficulty passes the
  presence test, and its log line renders.\<close>

lemma typed_request_accepted:
  assumes "d \<noteq> []"
  shows "fields_present (typed_request cid d ts) \<and> loggable (typed_request cid d ts)"
  using assms by (cases ts) (simp_all add: typed_request_def request_defs)

text \<open>
  The \<open>try\<close> body either throws before any send (the store query or the formatter threw),
  or makes exactly one send, of a reply that is not the internal-error reply, and throws
  exactly when that send fails.
\<close>

lemma try_block_sends:
  "(attempts (fst (try_block env c cid d t)) = [] \<and> published (fst (try_block env c cid d t)) = []
      \<and> (\<exists>err. snd (try_block env c cid d t) = Some err))
   \<or> (\<exists>r. attempts (fst (try_block env c cid d t)) = [r]
          \<and> snd (try_block env c cid d t) = producer_send env 0 r
          \<and> published (fst (try_block env c cid d t)) = (if producer_send env 0 r = None then [r] else [])
          \<and> r \<noteq> internal_error_reply c
          \<and> topic r = ''question-replies''
          \<and> payload_field r ''correlationId'' = [c])"
  by (auto simp add: try_block_def Let_def no_question_reply_def success_reply_def internal_error_reply_def
      reply_def payload_field_def split: sum.splits option.splits)

lemma try_block_store_fault:
  assumes "findRandomQuestion env d t = Inl err"
  shows "try_block env c cid d t = ([Store_query d t], Some err)"
  using assms by (simp add: try_block_def)

lemma try_block_no_question:
  assumes "findRandomQuestion env d t = Inr rq" and "no_question rq"
  shows "try_block env c cid d t =
           ([Store_query d t,
             Console console_warn [Text (''[Question] Kafka: No question found for '' @ cid)],
             Producer_send (no_question_reply c) (producer_send env 0 (no_question_reply c))],
            producer_send env 0 (no_question_reply c))"
  using assms by (simp add: try_block_def Let_def)

lemma try_block_found:
  assumes "findRandomQuestion env d t = Inr rq" and "\<not> no_question rq"
    and "formatQuestionResponse (js_member rq ''0'') = Inr data"
  shows "attempts (fst (try_block env c cid d t)) = [success_reply c data]
       \<and> published (fst (try_block env c cid d t))
           = (if producer_send env 0 (success_reply c data) = None then [success_reply c data] else [])
       \<and> snd (try_block env c cid d t) = producer_send env 0 (success_reply c data)"
  using assms by (simp add: try_block_def Let_def split: option.splits)

text \<open>The handler on a message that passes the presence test and whose log line renders:
  the log line, the \<open>try\<close> body, and the \<open>catch\<close> block when the body threw.\<close>

lemma handle_accepted:
  assumes "fields_present message" and "loggable message"
  shows "\<exists>cid line.
     handleMatchingRequest env message =
       (case try_block env (request_correlationId message) cid (request_difficulty message)
               (request_topic0 message) of
          (evs, None) \<Rightarrow> (Console console_log [Text line] # evs, Resolved)
        | (evs, Some err) \<Rightarrow>
            (Console console_log [Text line] # evs
               @ catch_block env (length (attempts evs)) (request_correlationId message) cid err,
             Resolved))"
  using assms
  by (auto simp add: request_defs handleMatchingRequest_def get_prop_def handling_line_def Let_def
      split: sum.splits)

text \<open>On any other message nothing is sent and the store is not queried.\<close>

lemma handle_not_accepted:
  assumes "\<not> (fields_present message \<and> loggable message)"
  shows "attempts (fst (handleMatchingRequest env message)) = []
       \<and> published (fst (handleMatchingRequest env message)) = []
       \<and> queries (fst (handleMatchingRequest env message)) = []"
  using assms
  by (auto simp add: request_defs handleMatchingRequest_def get_prop_def handling_line_def Let_def
      split: sum.splits)

text \<open>The promise is rejected only by a \<open>TypeError\<close> raised before the \<open>try\<close>, and then
  nothing was logged, queried or sent: faults of the store and of the producer never
  leave the handler.\<close>

lemma rejection_only_before_try:
  assumes "snd (handleMatchingRequest env message) = Rejected e"
  shows "e = TypeError \<and> fst (handleMatchingRequest env message) = []"
  using assms
  by (auto simp add: handleMatchingRequest_def get_prop_def handling_line_def Let_def
      split: if_splits sum.splits prod.splits option.splits dest: ToString_throws_TypeError)

text \<open>With a producer that acknowledges every send, an accepted message gets one send,
  and that send is published.\<close>

lemma acknowledged_single_reply:
  assumes "fields_present message" and "loggable message"
    and "\<And>n r. producer_send env n r = None"
  shows "\<exists>r. published (fst (handleMatchingRequest env message)) = [r]
           \<and> attempts (fst (handleMatchingRequest env message)) = [r]
           \<and> topic r = ''question-replies''
           \<and> payload_field r ''correlationId'' = [request_correlationId message]"
proof -
  let ?c = "request_correlationId message"
  obtain cid line where h: "handleMatchingRequest env message =
       (case try_block env ?c cid (request_difficulty message) (request_topic0 message) of
          (evs, None) \<Rightarrow> (Console console_log [Text line] # evs, Resolved)
        | (evs, Some err) \<Rightarrow>
            (Console console_log [Text line] # evs
               @ catch_block env (length (attempts evs)) ?c cid err, Resolved))"
    using handle_accepted [OF assms(1,2)] by blast
  let ?tb = "try_block env ?c cid (request_difficulty message) (request_topic0 message)"
  obtain evs thrown where tb: "?tb = (evs, thrown)" by (cases ?tb)
  from try_block_sends [of env ?c cid "request_difficulty message" "request_topic0 message"]
  show ?thesis
  proof (elim disjE conjE exE)
    fix err
    assume "attempts (fst ?tb) = []" "published (fst ?tb) = []" "snd ?tb = Some err"
    then show ?thesis
      using tb h assms(3)
      by (simp add: attempts_append published_append attempts_catch_block published_catch_block
          internal_error_reply_facts)
  next
    fix r
    assume "attempts (fst ?tb) = [r]" "snd ?tb = producer_send env 0 r"
      "published (fst ?tb) = (if producer_send env 0 r = None then [r] else [])"
      "topic r = ''question-replies''" "payload_field r ''correlationId'' = [?c]"
    then show ?thesis
      using tb h assms(3) by simp
  qed
qed

text \<open>The formatter copies the twelve public fields and nothing else.\<close>

lemma formatQuestionResponse_fields:
  assumes "\<not> nullish question"
  shows "\<exists>data. formatQuestionResponse question = Inr data
           \<and> (\<forall>k \<in> set question_fields. js_member data k = js_member question k)
           \<and> js_member data ''_id'' = JUndefined"
  using assms by (simp add: formatQuestionResponse_def question_fields_def)

text \<open>The HTTP route checks the criteria against \<open>DIFFICULTIES\<close> and \<open>TOPICS\<close> before it
  queries the store.\<close>

lemma getRandomQuestion_validates_first:
  assumes "\<not> array_includes DIFFICULTIES (js_member query ''difficulty'')
         \<or> \<not> array_includes TOPICS (js_member query ''topics'')"
  shows "queries (fst (getRandomQuestion env query)) = []"
  using assms
  by (auto simp add: getRandomQuestion_def getRandomQuestion_try_def Let_def split: sum.splits)

lemma getRandomQuestion_found:
  assumes "\<not> nullish query"
    and "array_includes DIFFICULTIES (js_member query ''difficulty'')"
    and "array_includes TOPICS (js_member query ''topics'')"
    and "findRandomQuestion env (js_member query ''difficulty'') (js_member query ''topics'') = Inr rq"
    and "\<not> no_question rq"
    and "formatQuestionResponse (js_member rq ''0'') = Inr data"
  shows "http_status (snd (getRandomQuestion env query)) = 200
       \<and> js_member (http_body (snd (getRandomQuestion env query))) ''data'' = data"
  using assms
  by (auto simp add: getRandomQuestion_def getRandomQuestion_try_def array_includes_def
      DIFFICULTIES_def TOPICS_def Let_def)

section \<open>Properties of the matching-request handler\<close>

text \<open>
  C1. For every bus message whose \<open>meta.difficulty\<close> and \<open>meta.topics\<close> are present (they
  pass the handler's presence test) and whose log line renders, as it does for every
  message of the declared payload shape, and for every behaviour of the store (it returns a
  record, returns none, or throws), \<open>handleMatchingRequest\<close> with a producer that
  acknowledges its sends makes exactly one send, which publishes exactly one reply, on the
  topic \<open>question-replies\<close>, and the \<open>correlationId\<close> of that reply is the
  \<open>correlationId\<close> of the request.
\<close>

theorem exactly_one_reply:
  assumes "fields_present message" and "loggable message"
    and "\<And>n r. producer_send env n r = None"
  shows "\<exists>r. published (fst (handleMatchingRequest env message)) = [r]
           \<and> attempts (fst (handleMatchingRequest env message)) = [r]
           \<and> topic r = ''question-replies''
           \<and> payload_field r ''correlationId'' = [request_correlationId message]"
  using acknowledged_single_reply [OF assms] .

text \<open>C1 at the request \<open>abc-1\<close> for Medium/Graphs, the store holding one such question.\<close>

theorem exactly_one_reply_witness:
  "fields_present sample_request \<and> loggable sample_request
   \<and> (\<exists>r. published (fst (handleMatchingRequest sample_env sample_request)) = [r]
           \<and> attempts (fst (handleMatchingRequest sample_env sample_request)) = [r]
           \<and> topic r = ''question-replies''
           \<and> payload_field r ''correlationId'' = [JStr ''abc-1''])"
proof -
  have f: "fields_present sample_request" by (simp add: request_defs sample_request_def)
  have l: "loggable sample_request" by (simp add: request_defs sample_request_def)
  have a: "\<And>n r. producer_send sample_env n r = None" by (simp add: sample_env_def)
  have c: "request_correlationId sample_request = JStr ''abc-1''"
    by (simp add: request_defs sample_request_def)
  show ?thesis using exactly_one_reply [OF f l a] f l c by simp
qed

text \<open>
  C2 (the code departs from the claim). A request with difficulty \<open>Extreme\<close> is not checked
  against \<open>DIFFICULTIES\<close> by \<open>handleMatchingRequest\<close>: the store is queried with
  \<open>Extreme\<close>. The HTTP route \<open>getRandomQuestion\<close> rejects the same criteria with status
  404 before any query.
\<close>

theorem unvalidated_criteria_reach_store:
  "queries (fst (handleMatchingRequest sample_env extreme_request))
     = [(JStr ''Extreme'', JStr ''Graphs'')]
   \<and> \<not> array_includes DIFFICULTIES (request_difficulty extreme_request)
   \<and> queries (fst (getRandomQuestion sample_env extreme_query)) = []
   \<and> http_status (snd (getRandomQuestion sample_env extreme_query)) = 404"
  by (simp add: handler_defs request_defs extreme_request_def extreme_query_def sample_env_def
      sample_store_def array_includes_def DIFFICULTIES_def TOPICS_def
      getRandomQuestion_def getRandomQuestion_try_def json_message_def)

text \<open>C2, read off at the store: the query made for the \<open>Extreme\<close> request is not empty.\<close>

theorem unvalidated_criteria_reach_store_witness:
  "queries (fst (handleMatchingRequest sample_env extreme_request)) \<noteq> []
   \<and> queries (fst (getRandomQuestion sample_env extreme_query)) = []"
  using unvalidated_criteria_reach_store by simp

text \<open>
  C3 (as stated, it fails). With a producer whose first send fails, the handler makes two
  sends for one request: the success reply, then the internal-error reply.
\<close>

theorem second_attempt_counterexample:
  "length (attempts (fst (handleMatchingRequest flaky_env sample_request))) = 2
   \<and> attempts (fst (handleMatchingRequest flaky_env sample_request)) ! 1
       = internal_error_reply (JStr ''abc-1'')
   \<and> payload_field (attempts (fst (handleMatchingRequest flaky_env sample_request)) ! 0) ''status''
       = [JStr ''success'']
   \<and> producer_send flaky_env 0 (attempts (fst (handleMatchingRequest flaky_env sample_request)) ! 0)
       = Some (Error ''broker unavailable'')"
  by (simp add: handler_defs sample_request_def flaky_env_def sample_store_def sample_question_def)

text \<open>
  C3 (amended). For every message and every behaviour of the store and of the producer, the
  handler makes no send, or one send, or two. A single send is either the internal-error
  reply or was acknowledged. Two sends happen only when the first one, of a reply other
  than the internal-error reply, failed, and the second is then the internal-error reply;
  so a failed send of the internal-error reply is followed by no further send. At most one
  reply is published.
\<close>

theorem at_most_one_fallback_attempt:
  "(attempts (fst (handleMatchingRequest env message)) = []
    \<or> (\<exists>r. attempts (fst (handleMatchingRequest env message)) = [r]
          \<and> (r = internal_error_reply (request_correlationId message) \<or> producer_send env 0 r = None))
    \<or> (\<exists>r e. attempts (fst (handleMatchingRequest env message))
                 = [r, internal_error_reply (request_correlationId message)]
          \<and> r \<noteq> internal_error_reply (request_correlationId message)
          \<and> producer_send env 0 r = Some e))
   \<and> length (published (fst (handleMatchingRequest env message))) \<le> 1"
proof (cases "fields_present message \<and> loggable message")
  case False
  then show ?thesis using handle_not_accepted [of message env] by simp
next
  case True
  let ?c = "request_correlationId message"
  obtain cid line where h: "handleMatchingRequest env message =
       (case try_block env ?c cid (request_difficulty message) (request_topic0 message) of
          (evs, None) \<Rightarrow> (Console console_log [Text line] # evs, Resolved)
        | (evs, Some err) \<Rightarrow>
            (Console console_log [Text line] # evs
               @ catch_block env (length (attempts evs)) ?c cid err, Resolved))"
    using handle_accepted [of message env] True by blast
  let ?tb = "try_block env ?c cid (request_difficulty message) (request_topic0 message)"
  obtain evs thrown where tb: "?tb = (evs, thrown)" by (cases ?tb)
  from try_block_sends [of env ?c cid "request_difficulty message" "request_topic0 message"]
  show ?thesis
  proof (elim disjE conjE exE)
    fix err
    assume "attempts (fst ?tb) = []" "published (fst ?tb) = []" "snd ?tb = Some err"
    then show ?thesis
      using tb h
      by (simp add: attempts_append published_append attempts_catch_block published_catch_block)
  next
    fix r
    assume a: "attempts (fst ?tb) = [r]" "snd ?tb = producer_send env 0 r"
      "published (fst ?tb) = (if producer_send env 0 r = None then [r] else [])"
      "r \<noteq> internal_error_reply ?c"
    show ?thesis
    proof (cases "producer_send env 0 r")
      case None
      then show ?thesis using a tb h by simp
    next
      case (Some e)
      then show ?thesis using a tb h
        by (simp add: attempts_append published_append attempts_catch_block published_catch_block)
    qed
  qed
qed

text \<open>C3 (amended) at the producer whose first send fails: two sends, the second the
  internal-error reply, which is the one reply published.\<close>

theorem at_most_one_fallback_attempt_witness:
  "attempts (fst (handleMatchingRequest flaky_env sample_request))
     = [hd (attempts (fst (handleMatchingRequest flaky_env sample_request))),
        internal_error_reply (JStr ''abc-1'')]
   \<and> published (fst (handleMatchingRequest flaky_env sample_request))
     = [internal_error_reply (JStr ''abc-1'')]"
proof -
  have c: "request_correlationId sample_request = JStr ''abc-1''"
    by (simp add: request_defs sample_request_def)
  have n: "attempts (fst (handleMatchingRequest flaky_env sample_request)) \<noteq> []"
    by (simp add: handler_defs sample_request_def flaky_env_def sample_store_def sample_question_def)
  have s: "\<And>r. producer_send flaky_env 0 r \<noteq> None"
    by (simp add: flaky_env_def)
  have p: "published (fst (handleMatchingRequest flaky_env sample_request))
     = [internal_error_reply (JStr ''abc-1'')]"
    by (simp add: handler_defs sample_request_def flaky_env_def sample_store_def sample_question_def)
  have q: "attempts (fst (handleMatchingRequest flaky_env sample_request))
     \<noteq> [internal_error_reply (JStr ''abc-1'')]"
    by (simp add: handler_defs sample_request_def flaky_env_def sample_store_def sample_question_def)
  show ?thesis
    using at_most_one_fallback_attempt [of flaky_env sample_request] c n s p q by auto
qed

text \<open>
  C4. For every message in which \<open>meta.difficulty\<close> or \<open>meta.topics\<close> is missing (it fails
  the handler's presence test, or \<open>meta\<close> itself cannot be read), the handler sends nothing
  to the bus and does not query the store. When \<open>meta\<close> can be read, all it does is log
  one warning carrying the message, and it returns normally; when \<open>meta\<close> cannot be read,
  it does nothing and its promise is rejected with a \<open>TypeError\<close>.
\<close>

theorem malformed_envelope_silence:
  assumes "\<not> fields_present message"
  shows "attempts (fst (handleMatchingRequest env message)) = []
       \<and> queries (fst (handleMatchingRequest env message)) = []
       \<and> (if meta_readable message
          then handleMatchingRequest env message
               = ([Console console_warn
                     [Text ''Received invalid matching request (missing fields):'', Val message]],
                  Resolved)
          else handleMatchingRequest env message = ([], Rejected TypeError))"
  using assms
  by (auto simp add: fields_present_def meta_readable_def handleMatchingRequest_def
      get_prop_def request_difficulty_def request_topics_def Let_def)

text \<open>C4 at a message whose \<open>meta\<close> has a difficulty and no topics.\<close>

theorem malformed_envelope_silence_witness:
  "\<not> fields_present no_topics_message
   \<and> handleMatchingRequest sample_env no_topics_message
       = ([Console console_warn
             [Text ''Received invalid matching request (missing fields):'', Val no_topics_message]],
          Resolved)"
proof -
  have f: "\<not> fields_present no_topics_message" by (simp add: request_defs no_topics_message_def)
  have m: "meta_readable no_topics_message" by (simp add: request_defs no_topics_message_def)
  show ?thesis using malformed_envelope_silence [OF f, of sample_env] f m by simp
qed

text \<open>
  C5. For every accepted request, if the store query throws \<open>err\<close>, the handler returns
  normally after exactly one send. The record sent goes to the topic \<open>question-replies\<close>
  and holds one payload, whose properties are the request's \<open>correlationId\<close>, the status
  \<open>error\<close>, the data \<open>null\<close> and the fixed message
  \<open>An internal error occurred in the Question Service.\<close>: \<open>err\<close> occurs nowhere in it.
  That reply is published when the producer acknowledges the send.
\<close>

theorem store_fault_generic_reply:
  assumes "fields_present message" and "loggable message"
    and "findRandomQuestion env (request_difficulty message) (request_topic0 message) = Inl err"
  shows "\<exists>r. attempts (fst (handleMatchingRequest env message)) = [r]
           \<and> topic r = ''question-replies''
           \<and> messages r =
               [JObj [(''correlationId'', request_correlationId message),
                      (''status'', JStr ''error''),
                      (''data'', JNull),
                      (''message'', JStr ''An internal error occurred in the Question Service.'')]]
           \<and> payload_field r ''correlationId'' = [request_correlationId message]
           \<and> payload_field r ''status'' = [JStr ''error'']
           \<and> payload_field r ''data'' = [JNull]
           \<and> payload_field r ''message''
               = [JStr ''An internal error occurred in the Question Service.'']
           \<and> published (fst (handleMatchingRequest env message))
               = (if producer_send env 0 r = None then [r] else [])
           \<and> snd (handleMatchingRequest env message) = Resolved"
proof -
  obtain cid line where h: "handleMatchingRequest env message =
       (case try_block env (request_correlationId message) cid (request_difficulty message)
               (request_topic0 message) of
          (evs, None) \<Rightarrow> (Console console_log [Text line] # evs, Resolved)
        | (evs, Some err) \<Rightarrow>
            (Console console_log [Text line] # evs
               @ catch_block env (length (attempts evs)) (request_correlationId message) cid err,
             Resolved))"
    using handle_accepted [OF assms(1,2)] by blast
  show ?thesis
    unfolding h try_block_store_fault [OF assms(3)]
    by (simp add: attempts_catch_block published_catch_block internal_error_reply_def
        reply_def payload_field_def)
qed

text \<open>C5 at a store that throws \<open>store unreachable\<close>: the one record published, and its
  payload read property by property.\<close>

theorem store_fault_generic_reply_witness:
  "published (fst (handleMatchingRequest faulty_store_env sample_request))
     = [\<lparr> topic = ''question-replies'',
          messages =
            [JObj [(''correlationId'', JStr ''abc-1''),
                   (''status'', JStr ''error''),
                   (''data'', JNull),
                   (''message'', JStr ''An internal error occurred in the Question Service.'')]] \<rparr>]
   \<and> payload_field (hd (published (fst (handleMatchingRequest faulty_store_env sample_request))))
        ''status'' = [JStr ''error'']
   \<and> payload_field (hd (published (fst (handleMatchingRequest faulty_store_env sample_request))))
        ''data'' = [JNull]
   \<and> payload_field (hd (published (fst (handleMatchingRequest faulty_store_env sample_request))))
        ''message'' = [JStr ''An internal error occurred in the Question Service.'']
   \<and> payload_field (hd (published (fst (handleMatchingRequest faulty_store_env sample_request))))
        ''correlationId'' = [JStr ''abc-1'']
   \<and> snd (handleMatchingRequest faulty_store_env sample_request) = Resolved"
proof -
  have f: "fields_present sample_request" by (simp add: request_defs sample_request_def)
  have l: "loggable sample_request" by (simp add: request_defs sample_request_def)
  have s: "findRandomQuestion faulty_store_env (request_difficulty sample_request)
             (request_topic0 sample_request) = Inl (Error ''store unreachable'')"
    by (simp add: faulty_store_env_def)
  have c: "request_correlationId sample_request = JStr ''abc-1''"
    by (simp add: request_defs sample_request_def)
  have a: "\<And>n r. producer_send faulty_store_env n r = None" by (simp add: faulty_store_env_def)
  obtain r where r: "attempts (fst (handleMatchingRequest faulty_store_env sample_request)) = [r]"
    "topic r = ''question-replies''"
    "messages r =
       [JObj [(''correlationId'', JStr ''abc-1''), (''status'', JStr ''error''), (''data'', JNull),
              (''message'', JStr ''An internal error occurred in the Question Service.'')]]"
    "payload_field r ''correlationId'' = [JStr ''abc-1'']"
    "payload_field r ''status'' = [JStr ''error'']"
    "payload_field r ''data'' = [JNull]"
    "payload_field r ''message'' = [JStr ''An internal error occurred in the Question Service.'']"
    "published (fst (handleMatchingRequest faulty_store_env sample_request)) = [r]"
    "snd (handleMatchingRequest faulty_store_env sample_request) = Resolved"
    using store_fault_generic_reply [OF f l s] c a by auto
  have "r = \<lparr> topic = ''question-replies'',
          messages =
            [JObj [(''correlationId'', JStr ''abc-1''), (''status'', JStr ''error''), (''data'', JNull),
                   (''message'', JStr ''An internal error occurred in the Question Service.'')]] \<rparr>"
    using r(2,3) by simp
  then show ?thesis using r by simp
qed

text \<open>
  C6 (as stated, it fails). Against an empty store the one record published for \<open>abc-1\<close>
  goes to \<open>question-replies\<close> with status \<open>error\<close> and data \<open>null\<close>, and the message of
  its payload is \<open>No questions found matching the criteria.\<close>, with a capital \<open>N\<close>,
  which is not the string \<open>no questions found matching the criteria.\<close>
\<close>

theorem no_match_message_counterexample:
  "published (fst (handleMatchingRequest empty_store_env sample_request))
     = [\<lparr> topic = ''question-replies'',
          messages =
            [JObj [(''correlationId'', JStr ''abc-1''),
                   (''status'', JStr ''error''),
                   (''data'', JNull),
                   (''message'', JStr ''No questions found matching the criteria.'')]] \<rparr>]
   \<and> payload_field (hd (published (fst (handleMatchingRequest empty_store_env sample_request))))
        ''message'' = [JStr ''No questions found matching the criteria.'']
   \<and> payload_field (hd (published (fst (handleMatchingRequest empty_store_env sample_request))))
        ''message'' \<noteq> [JStr ''no questions found matching the criteria.'']"
  by (simp add: handler_defs sample_request_def empty_store_env_def)

text \<open>
  C6 (amended). For every accepted request for which the store query returns no record
  (a falsy value such as \<open>null\<close>, or a result of length zero), the first send of the handler
  is a record for the topic \<open>question-replies\<close> holding one payload, whose properties are
  the request's \<open>correlationId\<close>, the status \<open>error\<close>, the data \<open>null\<close> and the message
  \<open>No questions found matching the criteria.\<close>; when the producer acknowledges it, it is the
  only send and the only reply published; and the handler returns normally.
\<close>

theorem no_match_reply:
  assumes "fields_present message" and "loggable message"
    and "findRandomQuestion env (request_difficulty message) (request_topic0 message) = Inr rq"
    and "no_question rq"
  shows "\<exists>r rest. attempts (fst (handleMatchingRequest env message)) = r # rest
           \<and> topic r = ''question-replies''
           \<and> messages r =
               [JObj [(''correlationId'', request_correlationId message),
                      (''status'', JStr ''error''),
                      (''data'', JNull),
                      (''message'', JStr ''No questions found matching the criteria.'')]]
           \<and> payload_field r ''correlationId'' = [request_correlationId message]
           \<and> payload_field r ''status'' = [JStr ''error'']
           \<and> payload_field r ''data'' = [JNull]
           \<and> payload_field r ''message'' = [JStr ''No questions found matching the criteria.'']
           \<and> snd (handleMatchingRequest env message) = Resolved
           \<and> (producer_send env 0 r = None
                \<longrightarrow> rest = [] \<and> published (fst (handleMatchingRequest env message)) = [r])"
proof -
  obtain cid line where h: "handleMatchingRequest env message =
       (case try_block env (request_correlationId message) cid (request_difficulty message)
               (request_topic0 message) of
          (evs, None) \<Rightarrow> (Console console_log [Text line] # evs, Resolved)
        | (evs, Some err) \<Rightarrow>
            (Console console_log [Text line] # evs
               @ catch_block env (length (attempts evs)) (request_correlationId message) cid err,
             Resolved))"
    using handle_accepted [OF assms(1,2)] by blast
  show ?thesis
    unfolding h try_block_no_question [OF assms(3,4)]
    by (cases "producer_send env 0 (no_question_reply (request_correlationId message))")
       (simp_all add: no_question_reply_def reply_def payload_field_def attempts_append)
qed

text \<open>C6 (amended) at a store that returns the empty array: the one record published, and
  its payload read property by property.\<close>

theorem no_match_reply_witness:
  "published (fst (handleMatchingRequest empty_store_env sample_request))
     = [\<lparr> topic = ''question-replies'',
          messages =
            [JObj [(''correlationId'', JStr ''abc-1''),
                   (''status'', JStr ''error''),
                   (''data'', JNull),
                   (''message'', JStr ''No questions found matching the criteria.'')]] \<rparr>]
   \<and> payload_field (hd (published (fst (handleMatchingRequest empty_store_env sample_request))))
        ''status'' = [JStr ''error'']
   \<and> payload_field (hd (published (fst (handleMatchingRequest empty_store_env sample_request))))
        ''data'' = [JNull]
   \<and> payload_field (hd (published (fst (handleMatchingRequest empty_store_env sample_request))))
        ''message'' = [JStr ''No questions found matching the criteria.'']
   \<and> payload_field (hd (published (fst (handleMatchingRequest empty_store_env sample_request))))
        ''correlationId'' = [JStr ''abc-1'']
   \<and> snd (handleMatchingRequest empty_store_env sample_request) = Resolved"
proof -
  have f: "fields_present sample_request" by (simp add: request_defs sample_request_def)
  have l: "loggable sample_request" by (simp add: request_defs sample_request_def)
  have s: "findRandomQuestion empty_store_env (request_difficulty sample_request)
             (request_topic0 sample_request) = Inr (JArr [])"
    by (simp add: empty_store_env_def)
  have n: "no_question (JArr [])" by (simp add: no_question_def)
  have c: "request_correlationId sample_request = JStr ''abc-1''"
    by (simp add: request_defs sample_request_def)
  have a: "\<And>n r. producer_send empty_store_env n r = None" by (simp add: empty_store_env_def)
  obtain r where r:
    "topic r = ''question-replies''"
    "messages r =
       [JObj [(''correlationId'', JStr ''abc-1''), (''status'', JStr ''error''), (''data'', JNull),
              (''message'', JStr ''No questions found matching the criteria.'')]]"
    "payload_field r ''correlationId'' = [JStr ''abc-1'']"
    "payload_field r ''status'' = [JStr ''error'']"
    "payload_field r ''data'' = [JNull]"
    "payload_field r ''message'' = [JStr ''No questions found matching the criteria.'']"
    "published (fst (handleMatchingRequest empty_store_env sample_request)) = [r]"
    "snd (handleMatchingRequest empty_store_env sample_request) = Resolved"
    using no_match_reply [OF f l s n] c a by auto
  have "r = \<lparr> topic = ''question-replies'',
          messages =
            [JObj [(''correlationId'', JStr ''abc-1''), (''status'', JStr ''error''), (''data'', JNull),
                   (''message'', JStr ''No questions found matching the criteria.'')]] \<rparr>"
    using r(1,2) by simp
  then show ?thesis using r by simp
qed

text \<open>
  C7 (the code departs from the claim). A message without \<open>meta\<close> makes the handler throw
  a \<open>TypeError\<close> at \<open>meta.difficulty\<close>, before the \<open>try\<close>: the promise is rejected and
  nothing is logged or sent.
\<close>

theorem absent_meta_rejects:
  "handleMatchingRequest sample_env no_meta_message = ([], Rejected TypeError)"
  by (simp add: handler_defs no_meta_message_def)

text \<open>C7, read off at the promise: it is rejected, and nothing was published.\<close>

theorem absent_meta_rejects_witness:
  "snd (handleMatchingRequest sample_env no_meta_message) = Rejected TypeError
   \<and> published (fst (handleMatchingRequest sample_env no_meta_message)) = []"
  using absent_meta_rejects by simp

text \<open>
  C9. The data of a success reply on the bus and the data of the HTTP answer of
  \<open>getRandomQuestion\<close> are both \<open>formatQuestionResponse\<close> of the first element of the
  store's result: for the same criteria and the same store result they are the same value.
  That value carries the question's \<open>id\<close> and has no \<open>_id\<close>.
\<close>

theorem shared_formatter:
  assumes "fields_present message" and "loggable message"
    and "\<not> nullish query"
    and "js_member query ''difficulty'' = request_difficulty message"
    and "js_member query ''topics'' = request_topic0 message"
    and "array_includes DIFFICULTIES (request_difficulty message)"
    and "array_includes TOPICS (request_topic0 message)"
    and "findRandomQuestion env (request_difficulty message) (request_topic0 message) = Inr rq"
    and "\<not> no_question rq" and "\<not> nullish (js_member rq ''0'')"
    and "\<And>n r. producer_send env n r = None"
  shows "\<exists>data. formatQuestionResponse (js_member rq ''0'') = Inr data
           \<and> published (fst (handleMatchingRequest env message))
               = [success_reply (request_correlationId message) data]
           \<and> payload_field (success_reply (request_correlationId message) data) ''data'' = [data]
           \<and> http_status (snd (getRandomQuestion env query)) = 200
           \<and> js_member (http_body (snd (getRandomQuestion env query))) ''data'' = data
           \<and> js_member data ''id'' = js_member (js_member rq ''0'') ''id''
           \<and> js_member data ''_id'' = JUndefined"
proof -
  obtain data where d: "formatQuestionResponse (js_member rq ''0'') = Inr data"
    and i: "\<forall>k \<in> set question_fields. js_member data k = js_member (js_member rq ''0'') k"
    and u: "js_member data ''_id'' = JUndefined"
    using formatQuestionResponse_fields [OF assms(10)] by blast
  obtain cid line where h: "handleMatchingRequest env message =
       (case try_block env (request_correlationId message) cid (request_difficulty message)
               (request_topic0 message) of
          (evs, None) \<Rightarrow> (Console console_log [Text line] # evs, Resolved)
        | (evs, Some err) \<Rightarrow>
            (Console console_log [Text line] # evs
               @ catch_block env (length (attempts evs)) (request_correlationId message) cid err,
             Resolved))"
    using handle_accepted [OF assms(1,2)] by blast
  let ?tb = "try_block env (request_correlationId message) cid (request_difficulty message)
               (request_topic0 message)"
  obtain evs thrown where tb: "?tb = (evs, thrown)" by (cases ?tb)
  have p: "published (fst (handleMatchingRequest env message))
               = [success_reply (request_correlationId message) data]"
    using try_block_found [OF assms(8,9) d, of "request_correlationId message" cid] tb h assms(11)
    by simp
  have g: "http_status (snd (getRandomQuestion env query)) = 200
       \<and> js_member (http_body (snd (getRandomQuestion env query))) ''data'' = data"
    using getRandomQuestion_found [of query env rq data] assms d by simp
  have f: "payload_field (success_reply (request_correlationId message) data) ''data'' = [data]"
    by (simp add: payload_field_def success_reply_def reply_def)
  have k: "js_member data ''id'' = js_member (js_member rq ''0'') ''id''"
    using i by (simp add: question_fields_def)
  show ?thesis using d p g f k u by blast
qed

text \<open>C9 at the Medium/Graphs request and query: the reply carries the data of the HTTP
  answer, with the \<open>id\<close> of the stored question and without its \<open>_id\<close>.\<close>

theorem shared_formatter_witness:
  "published (fst (handleMatchingRequest sample_env sample_request))
     = [success_reply (JStr ''abc-1'')
          (js_member (http_body (snd (getRandomQuestion sample_env sample_query))) ''data'')]
   \<and> js_member (js_member (http_body (snd (getRandomQuestion sample_env sample_query))) ''data'') ''id''
     = JStr ''65f0a1''
   \<and> js_member sample_question ''_id'' = JStr ''65f0a1''
   \<and> js_member (js_member (http_body (snd (getRandomQuestion sample_env sample_query))) ''data'') ''_id''
     = JUndefined"
proof -
  have f: "fields_present sample_request" by (simp add: request_defs sample_request_def)
  have l: "loggable sample_request" by (simp add: request_defs sample_request_def)
  have q: "\<not> nullish sample_query" by (simp add: sample_query_def)
  have d: "js_member sample_query ''difficulty'' = request_difficulty sample_request"
    by (simp add: request_defs sample_request_def sample_query_def)
  have t: "js_member sample_query ''topics'' = request_topic0 sample_request"
    by (simp add: request_defs sample_request_def sample_query_def)
  have vd: "array_includes DIFFICULTIES (request_difficulty sample_request)"
    by (simp add: request_defs sample_request_def array_includes_def DIFFICULTIES_def)
  have vt: "array_includes TOPICS (request_topic0 sample_request)"
    by (simp add: request_defs sample_request_def array_includes_def TOPICS_def)
  have s: "findRandomQuestion sample_env (request_difficulty sample_request)
             (request_topic0 sample_request) = Inr (JArr [sample_question])"
    by (simp add: request_defs sample_request_def sample_env_def sample_store_def)
  have n: "\<not> no_question (JArr [sample_question])" by (simp add: no_question_def)
  have z: "\<not> nullish (js_member (JArr [sample_question]) ''0'')" by (simp add: sample_question_def)
  have a: "\<And>n r. producer_send sample_env n r = None" by (simp add: sample_env_def)
  have c: "request_correlationId sample_request = JStr ''abc-1''"
    by (simp add: request_defs sample_request_def)
  have e: "js_member (JArr [sample_question]) ''0'' = sample_question" by simp
  have i: "js_member sample_question ''id'' = JStr ''65f0a1''"
    "js_member sample_question ''_id'' = JStr ''65f0a1''"
    by (simp_all add: sample_question_def)
  show ?thesis
    using shared_formatter [OF f l q d t vd vt s n z a] c e i by auto
qed

text \<open>
  C10. For every message whose \<open>meta.difficulty\<close> is present and whose \<open>meta.topics\<close> is the
  empty array (the correlation id and the difficulty being renderable, as strings are), the
  handler does not take the message for malformed: it queries the store once, with the
  difficulty and \<open>undefined\<close> as topic, makes a send, and returns normally; when the
  producer acknowledges its sends exactly one reply is published, carrying the request's
  \<open>correlationId\<close>.
\<close>

theorem empty_topics_not_malformed:
  assumes "meta_readable message" and "truthy (request_difficulty message)"
    and "request_topics message = JArr []"
    and "renders (request_correlationId message)" and "renders (request_difficulty message)"
  shows "fields_present message
       \<and> queries (fst (handleMatchingRequest env message)) = [(request_difficulty message, JUndefined)]
       \<and> attempts (fst (handleMatchingRequest env message)) \<noteq> []
       \<and> snd (handleMatchingRequest env message) = Resolved
       \<and> ((\<forall>n r. producer_send env n r = None)
            \<longrightarrow> (\<exists>r. published (fst (handleMatchingRequest env message)) = [r]
                      \<and> payload_field r ''correlationId'' = [request_correlationId message]))"
proof -
  have t0: "request_topic0 message = JUndefined"
    using assms(3) by (simp add: request_topic0_def)
  have f: "fields_present message"
    using assms(1,2,3) by (simp add: fields_present_def)
  have l: "loggable message"
    using assms(4,5) t0 by (simp add: loggable_def renders_def)
  obtain cid line where h: "handleMatchingRequest env message =
       (case try_block env (request_correlationId message) cid (request_difficulty message)
               (request_topic0 message) of
          (evs, None) \<Rightarrow> (Console console_log [Text line] # evs, Resolved)
        | (evs, Some err) \<Rightarrow>
            (Console console_log [Text line] # evs
               @ catch_block env (length (attempts evs)) (request_correlationId message) cid err,
             Resolved))"
    using handle_accepted [OF f l] by blast
  let ?tb = "try_block env (request_correlationId message) cid (request_difficulty message)
               (request_topic0 message)"
  obtain evs thrown where tb: "?tb = (evs, thrown)" by (cases ?tb)
  have q: "queries (fst (handleMatchingRequest env message))
             = [(request_difficulty message, JUndefined)]"
    using queries_try_block [of env "request_correlationId message" cid
        "request_difficulty message" "request_topic0 message"] tb h t0
    by (cases thrown) (simp_all add: queries_append queries_catch_block)
  have r: "snd (handleMatchingRequest env message) = Resolved"
    using tb h by (cases thrown) simp_all
  have a: "attempts (fst (handleMatchingRequest env message)) \<noteq> []"
    using try_block_sends [of env "request_correlationId message" cid
        "request_difficulty message" "request_topic0 message"] tb h
    by (cases thrown) (auto simp add: attempts_append attempts_catch_block)
  have p: "(\<forall>n r. producer_send env n r = None)
            \<longrightarrow> (\<exists>r. published (fst (handleMatchingRequest env message)) = [r]
                      \<and> payload_field r ''correlationId'' = [request_correlationId message])"
    using acknowledged_single_reply [OF f l, of env] by blast
  show ?thesis using f q a r p by blast
qed

text \<open>C10 at a Medium request with no topic: the store is asked for Medium and
  \<open>undefined\<close>, finds nothing, and the no-question reply is published.\<close>

theorem empty_topics_not_malformed_witness:
  "fields_present empty_topics_request
   \<and> queries (fst (handleMatchingRequest sample_env empty_topics_request))
       = [(JStr ''Medium'', JUndefined)]
   \<and> published (fst (handleMatchingRequest sample_env empty_topics_request))
       = [no_question_reply (JStr ''abc-1'')]"
proof -
  have m: "meta_readable empty_topics_request" by (simp add: request_defs empty_topics_request_def)
  have d: "truthy (request_difficulty empty_topics_request)"
    by (simp add: request_defs empty_topics_request_def)
  have t: "request_topics empty_topics_request = JArr []"
    by (simp add: request_defs empty_topics_request_def)
  have c: "renders (request_correlationId empty_topics_request)"
    by (simp add: request_defs empty_topics_request_def)
  have r: "renders (request_difficulty empty_topics_request)"
    by (simp add: request_defs empty_topics_request_def)
  have v: "request_difficulty empty_topics_request = JStr ''Medium''"
    by (simp add: request_defs empty_topics_request_def)
  have p: "published (fst (handleMatchingRequest sample_env empty_topics_request))
       = [no_question_reply (JStr ''abc-1'')]"
    by (simp add: handler_defs empty_topics_request_def sample_env_def sample_store_def)
  show ?thesis using empty_topics_not_malformed [OF m d t c r, of sample_env] v p by simp
qed

end
